theory Spec2Isabelle
  imports Main
begin

section \<open>Python values, errors and string primitives\<close>

text \<open>
  The module \<^verbatim>\<open>spawn.py\<close> is dynamically typed. The values that reach it are modelled
  by one datatype: \<^verbatim>\<open>None\<close>, integers (the stream sentinels are integers), strings and
  file objects (everything for which \<^verbatim>\<open>hasattr(x, 'fileno')\<close> holds). A string is a
  list of code points below 256.
\<close>

datatype fd = Fd_stdin | Fd_stdout | Fd_stderr

datatype fobj =
    Sys_stdin | Sys_stdout | Sys_stderr
  | User_file nat
  | Pipe_end nat fd  \<comment> \<open>the caller's end of the pipe to a standard stream of child \<open>pid\<close>\<close>

datatype pyval = PNone | PInt int | PStr string | PFile fobj

text \<open>
  The exception classes that matter. \<open>Spawn_CalledProcessError\<close> and
  \<open>Spawn_CalledProcessSignal\<close> are the two classes the module declares (lines 17 to 21);
  \<open>Subprocess_CalledProcessError\<close> is the standard library's class they derive from.
\<close>

datatype exc_class =
    Subprocess_CalledProcessError
  | Spawn_CalledProcessError
  | Spawn_CalledProcessSignal

datatype error =
    AssertionError
  | TypeError
  | ValueError
  | AttributeError
  | IndexError
  | OSError
  | TimeoutExpired
  | Unmodelled  \<comment> \<open>a conversion of the \<^verbatim>\<open>%\<close> operator outside the modelled fragment\<close>
  | CalledProcess exc_class int "string list option" "string option" "string option"
      \<comment> \<open>class, returncode, cmd, output, stderr\<close>

definition IGNORE :: int where "IGNORE = -1"
definition CAPTURE :: int where "CAPTURE = -2"
definition INTERACT :: int where "INTERACT = -3"
definition PIPE :: int where "PIPE = -4"
definition STDIN :: int where "STDIN = -5"
definition STDOUT :: int where "STDOUT = -6"
definition STDERR :: int where "STDERR = -7"
definition UNDEFINED :: int where "UNDEFINED = -8"

text \<open>\<^verbatim>\<open>s.count(sub)\<close>: the number of non-overlapping occurrences, scanning from the left.\<close>

function py_count :: "string \<Rightarrow> string \<Rightarrow> nat" where
  "py_count [] sub = (if sub = [] then 1 else 0)"
| "py_count (c # cs) sub =
     (if sub = [] then Suc (py_count cs sub)
      else if take (length sub) (c # cs) = sub
           then Suc (py_count (drop (length sub) (c # cs)) sub)
      else py_count cs sub)"
  by pat_completeness auto
termination
  by (relation "measure (\<lambda>(s, sub). length s)") auto

text \<open>\<^verbatim>\<open>str.isspace\<close> on code points below 256.\<close>

definition is_space :: "char \<Rightarrow> bool" where
  "is_space c \<longleftrightarrow>
     c \<in> set [CHR 0x09, CHR 0x0A, CHR 0x0B, CHR 0x0C, CHR 0x0D,
              CHR 0x1C, CHR 0x1D, CHR 0x1E, CHR 0x1F, CHR 0x20, CHR 0x85, CHR 0xA0]"

text \<open>
  \<^verbatim>\<open>s.split()\<close> with no separator: runs of whitespace separate the tokens, and
  leading and trailing whitespace yields no empty token. \<open>cur\<close> is the token being read.
\<close>

fun split_ws :: "string \<Rightarrow> string \<Rightarrow> string list" where
  "split_ws cur [] = (if cur = [] then [] else [cur])"
| "split_ws cur (c # cs) =
     (if is_space c then (if cur = [] then split_ws [] cs else cur # split_ws [] cs)
      else split_ws (cur @ [c]) cs)"

definition py_split :: "string \<Rightarrow> string list" where
  "py_split s = split_ws [] s"

text \<open>Slices \<^verbatim>\<open>xs[:n]\<close> and \<^verbatim>\<open>xs[n:]\<close>; a negative bound counts from the end.\<close>

definition slice_to :: "'a list \<Rightarrow> int \<Rightarrow> 'a list" where
  "slice_to xs n = (if 0 \<le> n then take (nat n) xs else take (nat (int (length xs) + n)) xs)"

definition slice_from :: "'a list \<Rightarrow> int \<Rightarrow> 'a list" where
  "slice_from xs n = (if 0 \<le> n then drop (nat n) xs else drop (nat (int (length xs) + n)) xs)"

text \<open>Decimal digits of a natural number, and \<^verbatim>\<open>str(i)\<close> of an integer.\<close>

fun digits :: "nat \<Rightarrow> string" where
  "digits n =
     (if n < 10 then [''0123456789'' ! n]
      else digits (n div 10) @ [''0123456789'' ! (n mod 10)])"

declare digits.simps [simp del]

definition str_int :: "int \<Rightarrow> string" where
  "str_int i = (if i < 0 then CHR ''-'' # digits (nat (- i)) else digits (nat i))"

text \<open>
  \<^verbatim>\<open>fmt % args\<close> with a tuple on the right, for the conversions \<^verbatim>\<open>%s\<close>, \<^verbatim>\<open>%d\<close> and the
  escape \<^verbatim>\<open>%%\<close>. The format is read left to right; a conversion with no argument left
  is a TypeError, a \<^verbatim>\<open>%\<close> at the end a ValueError, arguments left over at the end a
  TypeError. Flags, widths and the other conversion characters are not modelled.
\<close>

fun py_format :: "string \<Rightarrow> pyval list \<Rightarrow> error + string" where
  "py_format [] args = (if args = [] then Inr [] else Inl TypeError)"
| "py_format (c # cs) args =
     (if c \<noteq> CHR ''%'' then
        (case py_format cs args of Inl e \<Rightarrow> Inl e | Inr s \<Rightarrow> Inr (c # s))
      else
        (case cs of
           [] \<Rightarrow> Inl ValueError
         | d # ds \<Rightarrow>
             if d = CHR ''%'' then
               (case py_format ds args of Inl e \<Rightarrow> Inl e | Inr s \<Rightarrow> Inr (CHR ''%'' # s))
             else if d = CHR ''s'' then
               (case args of
                  [] \<Rightarrow> Inl TypeError
                | a # as \<Rightarrow>
                    (case a of
                       PFile f \<Rightarrow> Inl Unmodelled
                     | PNone \<Rightarrow>
                         (case py_format ds as of Inl e \<Rightarrow> Inl e | Inr s \<Rightarrow> Inr (''None'' @ s))
                     | PInt i \<Rightarrow>
                         (case py_format ds as of Inl e \<Rightarrow> Inl e | Inr s \<Rightarrow> Inr (str_int i @ s))
                     | PStr t \<Rightarrow>
                         (case py_format ds as of Inl e \<Rightarrow> Inl e | Inr s \<Rightarrow> Inr (t @ s))))
             else if d = CHR ''d'' then
               (case args of
                  [] \<Rightarrow> Inl TypeError
                | a # as \<Rightarrow>
                    (case a of
                       PInt i \<Rightarrow>
                         (case py_format ds as of Inl e \<Rightarrow> Inl e | Inr s \<Rightarrow> Inr (str_int i @ s))
                     | _ \<Rightarrow> Inl TypeError))
             else Inl Unmodelled))"

section \<open>The argv resolver\<close>

text \<open>
  \<^verbatim>\<open>
  def _spec_count(template):
      return template.count('%') - 2 * template.count('%%')
  \<close>
\<close>

definition spec_count :: "string \<Rightarrow> int" where
  "spec_count template = int (py_count template ''%'') - 2 * int (py_count template ''%%'')"

text \<open>
  \<^verbatim>\<open>
  def cmdline(template, *args):
      parts = template.split()
      if not args:
          return parts
      for i, part in enumerate(parts):
          spec_count = _spec_count(part)
          part_args = args[:spec_count]
          parts[i] = part % part_args
          args = args[spec_count:]
  \<close>
  \<open>cmdline_loop\<close> is the \<^verbatim>\<open>for\<close> loop: it returns the list \<^verbatim>\<open>parts\<close> as the loop leaves
  it, or the exception that \<^verbatim>\<open>%\<close> raised. The function has no \<^verbatim>\<open>return\<close> after the
  loop, so that path returns \<^verbatim>\<open>None\<close>: the result is an optional list.
\<close>

fun cmdline_loop :: "string list \<Rightarrow> pyval list \<Rightarrow> error + string list" where
  "cmdline_loop [] args = Inr []"
| "cmdline_loop (part # rest) args =
     (let n = spec_count part; part_args = slice_to args n in
      case py_format part part_args of
        Inl e \<Rightarrow> Inl e
      | Inr s \<Rightarrow>
          (case cmdline_loop rest (slice_from args n) of
             Inl e \<Rightarrow> Inl e
           | Inr ps \<Rightarrow> Inr (s # ps)))"

definition cmdline :: "string \<Rightarrow> pyval list \<Rightarrow> error + string list option" where
  "cmdline template args =
     (let parts = py_split template in
      if args = [] then Inr (Some parts)
      else (case cmdline_loop parts args of
              Inl e \<Rightarrow> Inl e
            | Inr parts' \<Rightarrow> Inr None))"

section \<open>Commands and pipelines as data\<close>

text \<open>
  A thread started by \<^verbatim>\<open>_parallel(fn, *args)\<close> is recorded by its target: the bound
  method \<^verbatim>\<open>write\<close> of a file object with its argument, or one of the two \<^verbatim>\<open>capture\<close>
  closures of \<^verbatim>\<open>Process.start\<close>. \<open>task_calls\<close> lists the file-object methods that
  the target calls when it runs.
\<close>

datatype task = Write_to fobj string | Capture_stdout | Capture_stderr

datatype file_call = File_write fobj string | File_read "fobj option" | File_flush fobj | File_close fobj

record popen =
  po_pid :: nat
  po_args :: "string list"
  po_stdin :: "fobj option"
  po_stdout :: "fobj option"
  po_stderr :: "fobj option"
  po_returncode :: "int option"


text \<open>
  The attributes of a \<^verbatim>\<open>Process\<close> (lines 97 to 115), with the three attributes that
  \<^verbatim>\<open>Runnable.__init__\<close> adds. \<open>p_cmdline\<close> is optional because \<^verbatim>\<open>cmdline\<close> can
  return \<^verbatim>\<open>None\<close>.
\<close>

record process =
  p_cmd :: string
  p_args :: "pyval list"
  p_cmdline :: "string list option"
  p_stdin :: pyval
  p_stdout :: pyval
  p_stderr :: pyval
  p_kwargs :: "(string \<times> pyval) list"
  p_popen :: "popen option"
  p_threads :: "task list"
  p_captured_stdout :: "string option"
  p_captured_stderr :: "string option"
  p_init_pipe :: bool
  p_pipe :: "fobj option"
  p_input :: "fobj option"
  p_output :: "fobj option"

text \<open>
  A \<^verbatim>\<open>Runnable\<close> is a \<^verbatim>\<open>Process\<close> or a \<^verbatim>\<open>Pipe\<close>; a \<^verbatim>\<open>Pipe\<close> holds \<^verbatim>\<open>_preceding\<close>,
  \<^verbatim>\<open>_process\<close> and its own \<^verbatim>\<open>_pipe\<close>, \<^verbatim>\<open>_input\<close>, \<^verbatim>\<open>_output\<close>.
\<close>

datatype runnable =
    Command process
  | Pipeline runnable process "fobj option" "fobj option" "fobj option"

fun pipe_of :: "runnable \<Rightarrow> fobj option" where
  "pipe_of (Command p) = p_pipe p"
| "pipe_of (Pipeline pre t pi i ou) = pi"

fun input_of :: "runnable \<Rightarrow> fobj option" where
  "input_of (Command p) = p_input p"
| "input_of (Pipeline pre t pi i ou) = i"

fun output_of :: "runnable \<Rightarrow> fobj option" where
  "output_of (Command p) = p_output p"
| "output_of (Pipeline pre t pi i ou) = ou"

text \<open>The stages of a runnable, first stage first.\<close>

fun stages :: "runnable \<Rightarrow> process list" where
  "stages (Command p) = [p]"
| "stages (Pipeline pre t pi i ou) = stages pre @ [t]"

section \<open>Construction\<close>

text \<open>
  Keyword binding of a call \<^verbatim>\<open>Process(cmd, *args, **kws)\<close> or \<^verbatim>\<open>Pipe(cmd, *args, **kws)\<close>:
  both constructors declare \<^verbatim>\<open>stdin\<close>, \<^verbatim>\<open>stdout\<close>, \<^verbatim>\<open>stderr\<close> as named parameters
  with default \<^verbatim>\<open>_UNDEFINED\<close>, so these keywords are bound to the parameters and only
  the other keywords are collected in \<^verbatim>\<open>kwargs\<close>.
\<close>

definition kw_get :: "(string \<times> pyval) list \<Rightarrow> string \<Rightarrow> pyval" where
  "kw_get kws k = (case map_of kws k of None \<Rightarrow> PInt UNDEFINED | Some v \<Rightarrow> v)"

definition kw_rest :: "(string \<times> pyval) list \<Rightarrow> (string \<times> pyval) list" where
  "kw_rest kws = filter (\<lambda>kv. fst kv \<notin> {''stdin'', ''stdout'', ''stderr''}) kws"

definition has_fileno :: "pyval \<Rightarrow> bool" where
  "has_fileno v = (case v of PFile f \<Rightarrow> True | _ \<Rightarrow> False)"

text \<open>
  \<^verbatim>\<open>
  def _interactive_count(self):
      return sum(1 for arg in ('stdout', 'stderr', 'stdin') if self._kwargs.get(arg) == INTERACT)
  \<close>
\<close>

definition Process_interactive_count :: "process \<Rightarrow> nat" where
  "Process_interactive_count p =
     length (filter (\<lambda>arg. map_of (p_kwargs p) arg = Some (PInt INTERACT))
                    [''stdout'', ''stderr'', ''stdin''])"

text \<open>
  \<^verbatim>\<open>Process.__init__\<close> (lines 94 to 116) after keyword binding. The last check is the
  assertion of \<^verbatim>\<open>Runnable.__init__\<close> (line 41).
\<close>

definition Process_init ::
  "string \<Rightarrow> pyval list \<Rightarrow> pyval \<Rightarrow> pyval \<Rightarrow> pyval \<Rightarrow> (string \<times> pyval) list \<Rightarrow> error + process"
where
  "Process_init cmd args stdin stdout stderr kwargs =
     (case cmdline cmd args of
        Inl e \<Rightarrow> Inl e
      | Inr cl \<Rightarrow>
          if stdin \<notin> {PInt UNDEFINED, PInt STDIN, PInt INTERACT} \<and> \<not> has_fileno stdin
            then Inl AssertionError
          else if stdout \<in> {PInt STDIN, PNone} then Inl AssertionError
          else if stderr \<in> {PInt STDIN, PNone} then Inl AssertionError
          else if stdout = PInt PIPE \<and> stderr = PInt PIPE then Inl AssertionError
          else
            (let self = \<lparr> p_cmd = cmd, p_args = args, p_cmdline = cl,
                          p_stdin = stdin, p_stdout = stdout, p_stderr = stderr,
                          p_kwargs = kwargs, p_popen = None, p_threads = [],
                          p_captured_stdout = None, p_captured_stderr = None,
                          p_init_pipe = False,
                          p_pipe = None, p_input = None, p_output = None \<rparr>
             in if Process_interactive_count self \<le> 1 then Inr self else Inl AssertionError))"

definition Process_new :: "string \<Rightarrow> pyval list \<Rightarrow> (string \<times> pyval) list \<Rightarrow> error + process" where
  "Process_new cmd args kws =
     Process_init cmd args (kw_get kws ''stdin'') (kw_get kws ''stdout'') (kw_get kws ''stderr'')
       (kw_rest kws)"

text \<open>
  \<^verbatim>\<open>
  def _prepare_pipe(self):            # Process
      self._init_pipe = True
      if self._stdout != PIPE and self._stderr != PIPE:
          assert self._stdout == _UNDEFINED
          self._stdout = PIPE
  def _prepare_pipe(self):            # Pipe
      self._process._prepare_pipe()
  \<close>
\<close>

definition Process_prepare_pipe :: "process \<Rightarrow> error + process" where
  "Process_prepare_pipe p =
     (let self = p\<lparr>p_init_pipe := True\<rparr> in
      if p_stdout self \<noteq> PInt PIPE \<and> p_stderr self \<noteq> PInt PIPE then
        (if p_stdout self = PInt UNDEFINED then Inr (self\<lparr>p_stdout := PInt PIPE\<rparr>)
         else Inl AssertionError)
      else Inr self)"

fun prepare_pipe :: "runnable \<Rightarrow> error + runnable" where
  "prepare_pipe (Command p) =
     (case Process_prepare_pipe p of Inl e \<Rightarrow> Inl e | Inr p' \<Rightarrow> Inr (Command p'))"
| "prepare_pipe (Pipeline pre t pi i ou) =
     (case Process_prepare_pipe t of Inl e \<Rightarrow> Inl e | Inr t' \<Rightarrow> Inr (Pipeline pre t' pi i ou))"

text \<open>
  \<^verbatim>\<open>
  def _interactive_count(self):       # Pipe
      return self._preceding._interactive_count() + self._process._interactive_count()
  \<close>
\<close>

fun interactive_count :: "runnable \<Rightarrow> nat" where
  "interactive_count (Command p) = Process_interactive_count p"
| "interactive_count (Pipeline pre t pi i ou) = interactive_count pre + Process_interactive_count t"

text \<open>
  \<^verbatim>\<open>cmd.rsplit('|', 1)\<close>: the text before the last separator and the text after it, or
  the string alone when it has no separator.
\<close>

definition rsplit1 :: "char \<Rightarrow> string \<Rightarrow> string list" where
  "rsplit1 sep s =
     (if sep \<in> set s
      then [rev (tl (dropWhile (\<lambda>c. c \<noteq> sep) (rev s))), rev (takeWhile (\<lambda>c. c \<noteq> sep) (rev s))]
      else [s])"

text \<open>
  Lines 244 to 251 of \<^verbatim>\<open>Pipe.__init__\<close>: the terminal \<^verbatim>\<open>Process\<close> is built with
  \<^verbatim>\<open>stdin=_UNDEFINED\<close>, then \<^verbatim>\<open>Runnable.__init__\<close> runs its assertion on the pipe.
\<close>

definition Pipe_finish ::
  "string \<Rightarrow> pyval list \<Rightarrow> runnable \<Rightarrow> pyval \<Rightarrow> pyval \<Rightarrow> (string \<times> pyval) list \<Rightarrow> error + runnable"
where
  "Pipe_finish cmd args preceding stdout stderr kwargs =
     (case Process_init cmd args (PInt UNDEFINED) stdout stderr kwargs of
        Inl e \<Rightarrow> Inl e
      | Inr t \<Rightarrow>
          (let self = Pipeline preceding t None None None in
           if interactive_count self \<le> 1 then Inr self else Inl AssertionError))"

text \<open>
  \<^verbatim>\<open>Pipe.__init__\<close> (lines 221 to 251) after keyword binding. Without \<^verbatim>\<open>_preceding\<close>
  the template is split at its last separator and the preceding side is built first, by
  this constructor again when it still holds a separator.
\<close>

function Pipe_init ::
  "string \<Rightarrow> pyval list \<Rightarrow> runnable option \<Rightarrow> pyval \<Rightarrow> pyval \<Rightarrow> pyval \<Rightarrow>
   (string \<times> pyval) list \<Rightarrow> error + runnable"
where
  "Pipe_init cmd args preceding stdin stdout stderr kwargs =
     (case preceding of
        None \<Rightarrow>
          if CHR ''|'' \<in> set cmd then
            (case rsplit1 (CHR ''|'') cmd of
               [preceding_cmd, cmd'] \<Rightarrow>
                 (let n = spec_count preceding_cmd;
                      preceding_args = slice_to args n;
                      args' = slice_from args n
                  in case (if CHR ''|'' \<in> set preceding_cmd
                           then Pipe_init preceding_cmd preceding_args None
                                  stdin (PInt UNDEFINED) stderr kwargs
                           else (case Process_init preceding_cmd preceding_args
                                        stdin (PInt UNDEFINED) stderr kwargs of
                                   Inl e \<Rightarrow> Inl e
                                 | Inr p \<Rightarrow> Inr (Command p))) of
                       Inl e \<Rightarrow> Inl e
                     | Inr pre \<Rightarrow>
                         (case prepare_pipe pre of
                            Inl e \<Rightarrow> Inl e
                          | Inr pre' \<Rightarrow> Pipe_finish cmd' args' pre' stdout stderr kwargs))
             | _ \<Rightarrow> Inl ValueError)
          else Inl AssertionError
      | Some pre \<Rightarrow>
          if stdin = PInt UNDEFINED then Pipe_finish cmd args pre stdout stderr kwargs
          else Inl AssertionError)"
  by pat_completeness auto
termination
proof (relation "measure (\<lambda>(cmd, args, preceding, stdin, stdout, stderr, kwargs). length cmd)")
  show "wf (measure (\<lambda>(cmd, args, preceding, stdin, stdout, stderr, kwargs). length cmd))"
    by simp
next
  fix cmd preceding_cmd :: string and args preceding_args :: "pyval list"
    and preceding :: "runnable option" and stdin stdout stderr :: pyval
    and kwargs :: "(string \<times> pyval) list" and x22 :: "string list"
  assume mem: "CHR ''|'' \<in> set cmd" and sp: "rsplit1 (CHR ''|'') cmd = preceding_cmd # x22"
  have "length (dropWhile (\<lambda>c. c \<noteq> CHR ''|'') (rev cmd)) \<le> length (rev cmd)"
    by (rule length_dropWhile_le)
  moreover from mem have "dropWhile (\<lambda>c. c \<noteq> CHR ''|'') (rev cmd) \<noteq> []" by simp
  ultimately have "length (tl (dropWhile (\<lambda>c. c \<noteq> CHR ''|'') (rev cmd))) < length cmd"
    by (cases "dropWhile (\<lambda>c. c \<noteq> CHR ''|'') (rev cmd)") auto
  with mem sp
  show "((preceding_cmd, preceding_args, None, stdin, PInt UNDEFINED, stderr, kwargs),
                     (cmd, args, preceding, stdin, stdout, stderr, kwargs))
        \<in> measure (\<lambda>(cmd, args, preceding, stdin, stdout, stderr, kwargs). length cmd)"
    by (auto simp: rsplit1_def)
qed

declare Pipe_init.simps [simp del]

definition Pipe_new ::
  "string \<Rightarrow> pyval list \<Rightarrow> runnable option \<Rightarrow> (string \<times> pyval) list \<Rightarrow> error + runnable"
where
  "Pipe_new cmd args preceding kws =
     Pipe_init cmd args preceding
       (kw_get kws ''stdin'') (kw_get kws ''stdout'') (kw_get kws ''stderr'') (kw_rest kws)"

text \<open>
  \<^verbatim>\<open>
  def pipe(self, cmd, *args, **kwargs):
      self._prepare_pipe()
      return Pipe(cmd, *args, _preceding=self, **kwargs)
  \<close>
  A keyword \<^verbatim>\<open>_preceding\<close> among \<^verbatim>\<open>kwargs\<close> would be given twice: a TypeError.
\<close>

definition pipe :: "runnable \<Rightarrow> string \<Rightarrow> pyval list \<Rightarrow> (string \<times> pyval) list \<Rightarrow> error + runnable" where
  "pipe self cmd args kwargs =
     (case prepare_pipe self of
        Inl e \<Rightarrow> Inl e
      | Inr self' \<Rightarrow>
          if ''_preceding'' \<in> fst ` set kwargs then Inl TypeError
          else Pipe_new cmd args (Some self') kwargs)"

section \<open>The operating system and the process handle\<close>

text \<open>
  Process creation and the process handle belong to the standard library and the
  operating system. The model fixes what the children do in advance: \<open>exit_at os pid\<close> is
  the time at which child \<open>pid\<close> exits and its return code (negative when a signal ended
  it), or \<open>None\<close> when it never exits; \<open>child_out os pid s\<close> is what it writes to its
  standard stream \<open>s\<close>; \<open>executable os argv\<close> tells whether process creation succeeds.
  \<open>clock\<close> is the current time, \<open>next_pid\<close> the next free process id, and \<open>os_log\<close> the
  operations requested from the operating system, oldest first.
\<close>

datatype os_call =
    Spawn nat "string list" pyval pyval pyval "(string \<times> pyval) list"
  | Send_signal nat int
  | Terminate nat
  | Kill nat

record os =
  next_pid :: nat
  clock :: nat
  executable :: "string list \<Rightarrow> bool"
  exit_at :: "nat \<Rightarrow> (nat \<times> int) option"
  child_out :: "nat \<Rightarrow> fd \<Rightarrow> string"
  os_log :: "os_call list"

definition SUBPROCESS_PIPE :: int where "SUBPROCESS_PIPE = -1"
definition SUBPROCESS_DEVNULL :: int where "SUBPROCESS_DEVNULL = -3"

text \<open>
  \<^verbatim>\<open>subprocess.Popen(args, stdin=, stdout=, stderr=, **kwargs)\<close>. The attribute for a
  standard stream is a file object when \<^verbatim>\<open>subprocess.PIPE\<close> was requested for it and
  \<^verbatim>\<open>None\<close> otherwise. \<^verbatim>\<open>args\<close> equal to \<^verbatim>\<open>None\<close> is a TypeError and an empty list
  an IndexError. The extra keywords are passed through uninterpreted.
\<close>

definition pipe_attr :: "nat \<Rightarrow> fd \<Rightarrow> pyval \<Rightarrow> fobj option" where
  "pipe_attr pid s requested =
     (if requested = PInt SUBPROCESS_PIPE then Some (Pipe_end pid s) else None)"

definition Popen ::
  "os \<Rightarrow> string list option \<Rightarrow> pyval \<Rightarrow> pyval \<Rightarrow> pyval \<Rightarrow> (string \<times> pyval) list \<Rightarrow> error + os \<times> popen"
where
  "Popen w args stdin stdout stderr kwargs =
     (case args of
        None \<Rightarrow> Inl TypeError
      | Some argv \<Rightarrow>
          if argv = [] then Inl IndexError
          else if executable w argv then
            (let pid = next_pid w in
             Inr (w\<lparr>next_pid := Suc pid,
                     os_log := os_log w @ [Spawn pid argv stdin stdout stderr kwargs]\<rparr>,
                  \<lparr> po_pid = pid, po_args = argv,
                    po_stdin = pipe_attr pid Fd_stdin stdin,
                    po_stdout = pipe_attr pid Fd_stdout stdout,
                    po_stderr = pipe_attr pid Fd_stderr stderr,
                    po_returncode = None \<rparr>))
          else Inl OSError)"

text \<open>
  \<^verbatim>\<open>Popen.poll()\<close>: the return code when the child has exited by now, else
  \<^verbatim>\<open>None\<close>; the handle remembers the return code.
\<close>

definition Popen_poll :: "os \<Rightarrow> popen \<Rightarrow> popen \<times> int option" where
  "Popen_poll w h =
     (case po_returncode h of
        Some rc \<Rightarrow> (h, Some rc)
      | None \<Rightarrow>
          (case exit_at w (po_pid h) of
             None \<Rightarrow> (h, None)
           | Some (t, rc) \<Rightarrow>
               if t \<le> clock w then (h\<lparr>po_returncode := Some rc\<rparr>, Some rc) else (h, None)))"

text \<open>
  \<^verbatim>\<open>Popen.wait(timeout)\<close>. The call returns when the child has exited, raises
  \<^verbatim>\<open>TimeoutExpired\<close> when the timeout ends first, and never returns when there is no
  timeout and the child never exits: the result is then \<open>None\<close>.
\<close>

definition Popen_wait :: "os \<Rightarrow> popen \<Rightarrow> nat option \<Rightarrow> (error + os \<times> popen \<times> int) option" where
  "Popen_wait w h timeout =
     (case po_returncode h of
        Some rc \<Rightarrow> Some (Inr (w, h, rc))
      | None \<Rightarrow>
          (case exit_at w (po_pid h) of
             None \<Rightarrow>
               (case timeout of
                  None \<Rightarrow> None
                | Some d \<Rightarrow> Some (Inl TimeoutExpired))
           | Some (t, rc) \<Rightarrow>
               (case timeout of
                  None \<Rightarrow> Some (Inr (w\<lparr>clock := max (clock w) t\<rparr>, h\<lparr>po_returncode := Some rc\<rparr>, rc))
                | Some d \<Rightarrow>
                    if t \<le> clock w + d
                    then Some (Inr (w\<lparr>clock := max (clock w) t\<rparr>, h\<lparr>po_returncode := Some rc\<rparr>, rc))
                    else Some (Inl TimeoutExpired))))"

text \<open>
  The signal operations of the handle. A Python call checks the number of positional
  arguments against the signature: \<^verbatim>\<open>Popen.send_signal(self, sig)\<close> takes one argument
  beside the handle, \<^verbatim>\<open>terminate\<close> and \<^verbatim>\<open>kill\<close> take none. An argument is a value or an
  object of this module.
\<close>

datatype pyarg = Arg_value pyval | Arg_process process

definition Popen_send_signal :: "os \<Rightarrow> popen \<Rightarrow> pyarg list \<Rightarrow> error + os" where
  "Popen_send_signal w h args =
     (case args of
        [Arg_value (PInt sig)] \<Rightarrow> Inr (w\<lparr>os_log := os_log w @ [Send_signal (po_pid h) sig]\<rparr>)
      | _ \<Rightarrow> Inl TypeError)"

definition Popen_terminate :: "os \<Rightarrow> popen \<Rightarrow> pyarg list \<Rightarrow> error + os" where
  "Popen_terminate w h args =
     (if args = [] then Inr (w\<lparr>os_log := os_log w @ [Terminate (po_pid h)]\<rparr>) else Inl TypeError)"

definition Popen_kill :: "os \<Rightarrow> popen \<Rightarrow> pyarg list \<Rightarrow> error + os" where
  "Popen_kill w h args =
     (if args = [] then Inr (w\<lparr>os_log := os_log w @ [Kill (po_pid h)]\<rparr>) else Inl TypeError)"

section \<open>Signals\<close>

text \<open>
  \<^verbatim>\<open>
  def send_signal(self, signal):
      self._popen.send_signal(self, signal)
  def terminate(self):
      self._popen.terminate()
  def kill(self):
      self._popen.kill()
  \<close>
  Before \<^verbatim>\<open>start()\<close> the attribute \<^verbatim>\<open>_popen\<close> is \<^verbatim>\<open>None\<close>, which has none of these
  methods.
\<close>

definition Process_send_signal :: "os \<Rightarrow> process \<Rightarrow> int \<Rightarrow> error + os" where
  "Process_send_signal w self signal =
     (case p_popen self of
        None \<Rightarrow> Inl AttributeError
      | Some h \<Rightarrow> Popen_send_signal w h [Arg_process self, Arg_value (PInt signal)])"

definition Process_terminate :: "os \<Rightarrow> process \<Rightarrow> error + os" where
  "Process_terminate w self =
     (case p_popen self of None \<Rightarrow> Inl AttributeError | Some h \<Rightarrow> Popen_terminate w h [])"

definition Process_kill :: "os \<Rightarrow> process \<Rightarrow> error + os" where
  "Process_kill w self =
     (case p_popen self of None \<Rightarrow> Inl AttributeError | Some h \<Rightarrow> Popen_kill w h [])"

section \<open>Starting\<close>

text \<open>
  \<^verbatim>\<open>Process._out_handle(value, default, is_pipe)\<close> (lines 142 to 159).
\<close>

definition out_handle :: "pyval \<Rightarrow> pyval \<Rightarrow> bool \<Rightarrow> error + pyval" where
  "out_handle v dflt is_pipe =
     (if v = PInt IGNORE then Inr (PInt SUBPROCESS_DEVNULL)
      else if v \<in> {PInt CAPTURE, PInt INTERACT} then Inr (PInt SUBPROCESS_PIPE)
      else if v = PInt PIPE then
        (if is_pipe then Inr (PInt SUBPROCESS_PIPE) else Inl AssertionError)
      else if v = PInt UNDEFINED then Inr dflt
      else if v = PInt STDOUT then Inr (PFile Sys_stdout)
      else if v = PInt STDERR then Inr (PFile Sys_stderr)
      else if has_fileno v then Inr v
      else Inl AssertionError)"

text \<open>Lines 164 to 173: the handle for the child's standard input.\<close>

definition in_handle :: "process \<Rightarrow> string option \<Rightarrow> error + pyval" where
  "in_handle self input =
     (if input \<noteq> None \<or> p_stdin self = PInt INTERACT then
        (if p_stdin self \<in> {PInt UNDEFINED, PInt INTERACT} then Inr (PInt SUBPROCESS_PIPE)
         else Inl AssertionError)
      else if p_stdin self = PInt IGNORE then Inr (PInt SUBPROCESS_DEVNULL)
      else if p_stdin self \<in> {PInt STDIN, PInt UNDEFINED} then Inr (PFile Sys_stdin)
      else if has_fileno (p_stdin self) then Inr (p_stdin self)
      else Inl AssertionError)"

text \<open>Lines 181 to 191: which handles the started process exposes.\<close>

definition expose :: "process \<Rightarrow> popen \<Rightarrow> process" where
  "expose self h =
     (let s1 = (if p_stdin self = PInt INTERACT then self\<lparr>p_input := po_stdin h\<rparr>
                else if p_stdout self = PInt INTERACT then self\<lparr>p_output := po_stdout h\<rparr>
                else if p_stderr self = PInt INTERACT then self\<lparr>p_output := po_stderr h\<rparr>
                else self)
      in if p_init_pipe s1 then
           (if p_stdout s1 = PInt PIPE then s1\<lparr>p_pipe := po_stdout h\<rparr>
            else if p_stderr s1 = PInt PIPE then s1\<lparr>p_pipe := po_stderr h\<rparr>
            else s1)
         else s1)"

text \<open>
  Lines 193 to 202: the background threads, in the order in which \<^verbatim>\<open>_parallel\<close>
  appends them to \<^verbatim>\<open>_threads\<close>.
  \<^verbatim>\<open>
  if input is not None:
      self._parallel(self._popen.stdin.write, input)
  if self._stdout == CAPTURE:
      def capture():
          self._captured_stdout = self._popen.stdout.read()
      self._parallel(capture)
  if self._stderr == CAPTURE:
      def capture():
          self._captured_stderr = self._popen.stderr.read()
      self._parallel(capture)
  \<close>
\<close>

definition capture_threads :: "process \<Rightarrow> task list" where
  "capture_threads self =
     (if p_stdout self = PInt CAPTURE then [Capture_stdout] else []) @
     (if p_stderr self = PInt CAPTURE then [Capture_stderr] else [])"

definition launch :: "process \<Rightarrow> popen \<Rightarrow> string option \<Rightarrow> error + process" where
  "launch self h input =
     (case input of
        None \<Rightarrow> Inr (self\<lparr>p_threads := p_threads self @ capture_threads self\<rparr>)
      | Some data \<Rightarrow>
          (case po_stdin h of
             None \<Rightarrow> Inl AttributeError
           | Some f \<Rightarrow>
               Inr (self\<lparr>p_threads := p_threads self @ [Write_to f data] @ capture_threads self\<rparr>)))"

text \<open>\<^verbatim>\<open>Process.start(input=None)\<close> (lines 161 to 202).\<close>

definition Process_start :: "os \<Rightarrow> process \<Rightarrow> string option \<Rightarrow> error + os \<times> process" where
  "Process_start w self input =
     (if p_popen self \<noteq> None then Inl AssertionError
      else
        (case in_handle self input of
           Inl e \<Rightarrow> Inl e
         | Inr pstdin \<Rightarrow>
        (case out_handle (p_stdout self) (PFile Sys_stdout) (p_init_pipe self) of
           Inl e \<Rightarrow> Inl e
         | Inr pstdout \<Rightarrow>
        (case out_handle (p_stderr self) (PFile Sys_stderr) (p_init_pipe self) of
           Inl e \<Rightarrow> Inl e
         | Inr pstderr \<Rightarrow>
        (case Popen w (p_cmdline self) pstdin pstdout pstderr (p_kwargs self) of
           Inl e \<Rightarrow> Inl e
         | Inr (w', h) \<Rightarrow>
        (case launch (expose (self\<lparr>p_popen := Some h\<rparr>) h) h input of
           Inl e \<Rightarrow> Inl e
         | Inr self' \<Rightarrow> Inr (w', self')))))))"

text \<open>
  \<^verbatim>\<open>
  def start(self, input=None):        # Pipe
      self._preceding.start(input)
      assert self._preceding._pipe
      self._process._stdin = self._preceding._pipe
      self._process.start()
      self._pipe = self._process._pipe
      self._input = self._preceding._input
      self._output = self._process._output
  \<close>
  \<open>start\<close> is the method call \<^verbatim>\<open>r.start(input)\<close> on either kind of runnable.
\<close>

fun start :: "os \<Rightarrow> runnable \<Rightarrow> string option \<Rightarrow> error + os \<times> runnable" where
  "start w (Command p) input =
     (case Process_start w p input of Inl e \<Rightarrow> Inl e | Inr (w', p') \<Rightarrow> Inr (w', Command p'))"
| "start w (Pipeline pre t pi i ou) input =
     (case start w pre input of
        Inl e \<Rightarrow> Inl e
      | Inr (w1, pre') \<Rightarrow>
          (case pipe_of pre' of
             None \<Rightarrow> Inl AssertionError
           | Some f \<Rightarrow>
               (case Process_start w1 (t\<lparr>p_stdin := PFile f\<rparr>) None of
                  Inl e \<Rightarrow> Inl e
                | Inr (w2, t') \<Rightarrow>
                    Inr (w2, Pipeline pre' t' (p_pipe t') (input_of pre') (p_output t')))))"

section \<open>Polling, waiting and running\<close>

text \<open>
  \<^verbatim>\<open>
  def poll(self):                     # Process
      return self._popen.poll()
  def poll(self):                     # Pipe
      return self._process.poll()
  \<close>
\<close>

definition Process_poll :: "os \<Rightarrow> process \<Rightarrow> error + process \<times> int option" where
  "Process_poll w self =
     (case p_popen self of
        None \<Rightarrow> Inl AttributeError
      | Some h \<Rightarrow> (case Popen_poll w h of (h', rc) \<Rightarrow> Inr (self\<lparr>p_popen := Some h'\<rparr>, rc)))"

fun poll :: "os \<Rightarrow> runnable \<Rightarrow> error + runnable \<times> int option" where
  "poll w (Command p) =
     (case Process_poll w p of Inl e \<Rightarrow> Inl e | Inr (p', rc) \<Rightarrow> Inr (Command p', rc))"
| "poll w (Pipeline pre t pi i ou) =
     (case Process_poll w t of
        Inl e \<Rightarrow> Inl e
      | Inr (t', rc) \<Rightarrow> Inr (Pipeline pre t' pi i ou, rc))"

text \<open>The completion record \<^verbatim>\<open>CompletedProcess(args=, returncode=, stdout=, stderr=)\<close>.\<close>

record completed =
  cp_args :: "string list option"
  cp_returncode :: "int option"
  cp_stdout :: "string option"
  cp_stderr :: "string option"

text \<open>
  What a joined thread has done to the attributes of its \<^verbatim>\<open>Process\<close>: a capture
  closure has stored what the child wrote to the stream, the writing thread stores
  nothing. Once the child has exited its ends of the pipes are closed, so the blocking
  call of each thread has ended and \<^verbatim>\<open>join\<close> returns.
\<close>

fun join :: "os \<Rightarrow> popen \<Rightarrow> process \<Rightarrow> task \<Rightarrow> process" where
  "join w h self (Write_to f d) = self"
| "join w h self Capture_stdout =
     (case po_stdout h of
        None \<Rightarrow> self
      | Some f \<Rightarrow> self\<lparr>p_captured_stdout := Some (child_out w (po_pid h) Fd_stdout)\<rparr>)"
| "join w h self Capture_stderr =
     (case po_stderr h of
        None \<Rightarrow> self
      | Some f \<Rightarrow> self\<lparr>p_captured_stderr := Some (child_out w (po_pid h) Fd_stderr)\<rparr>)"

text \<open>
  An argument of a call that the caller may leave out. \<^verbatim>\<open>Process.wait(self, timeout)\<close>
  declares no default for \<^verbatim>\<open>timeout\<close>, so a call without it is a TypeError;
  \<^verbatim>\<open>Pipe.wait(self, timeout=None)\<close> declares the default \<^verbatim>\<open>None\<close>.
  \<^verbatim>\<open>
  def wait(self, timeout):            # Process
      self._popen.wait(timeout)
      for thread in self._threads:
          thread.join()
      return CompletedProcess(args=self._cmdline,
                              returncode=self._popen.returncode,
                              stdout=self._captured_stdout,
                              stderr=self._captured_stderr)
  def wait(self, timeout=None):       # Pipe
      return self._process.wait(timeout)
  \<close>
  The result is \<open>None\<close> when the call never returns.
\<close>

datatype 'a arg = Omitted | Given 'a

definition Process_wait ::
  "os \<Rightarrow> process \<Rightarrow> nat option arg \<Rightarrow> (error + os \<times> process \<times> completed) option"
where
  "Process_wait w self a =
     (case a of
        Omitted \<Rightarrow> Some (Inl TypeError)
      | Given timeout \<Rightarrow>
          (case p_popen self of
             None \<Rightarrow> Some (Inl AttributeError)
           | Some h \<Rightarrow>
               (case Popen_wait w h timeout of
                  None \<Rightarrow> None
                | Some (Inl e) \<Rightarrow> Some (Inl e)
                | Some (Inr (w', h', rc)) \<Rightarrow>
                    (let self' = foldl (join w' h') (self\<lparr>p_popen := Some h'\<rparr>) (p_threads self)
                     in Some (Inr (w', self',
                          \<lparr> cp_args = p_cmdline self', cp_returncode = po_returncode h',
                            cp_stdout = p_captured_stdout self',
                            cp_stderr = p_captured_stderr self' \<rparr>))))))"

fun wait ::
  "os \<Rightarrow> runnable \<Rightarrow> nat option arg \<Rightarrow> (error + os \<times> runnable \<times> completed) option"
where
  "wait w (Command p) a =
     (case Process_wait w p a of
        None \<Rightarrow> None
      | Some (Inl e) \<Rightarrow> Some (Inl e)
      | Some (Inr (w', p', res)) \<Rightarrow> Some (Inr (w', Command p', res)))"
| "wait w (Pipeline pre t pi i ou) a =
     (let timeout = (case a of Omitted \<Rightarrow> None | Given x \<Rightarrow> x) in
      case Process_wait w t (Given timeout) of
        None \<Rightarrow> None
      | Some (Inl e) \<Rightarrow> Some (Inl e)
      | Some (Inr (w', t', res)) \<Rightarrow> Some (Inr (w', Pipeline pre t' pi i ou, res)))"

text \<open>
  \<^verbatim>\<open>
  def run(self, input=None, timeout=None):
      self.start()
      return self.wait(timeout)
  \<close>
\<close>

definition run ::
  "os \<Rightarrow> runnable \<Rightarrow> string option \<Rightarrow> nat option \<Rightarrow> (error + os \<times> runnable \<times> completed) option"
where
  "run w self input timeout =
     (case start w self None of
        Inl e \<Rightarrow> Some (Inl e)
      | Inr (w', self') \<Rightarrow> wait w' self' (Given timeout))"

text \<open>
  The specification's description of \<^verbatim>\<open>run\<close>, to compare with the code: a call
  \<^verbatim>\<open>start()\<close> with no argument, then a call \<^verbatim>\<open>wait(timeout)\<close> on the started object
  whose result is the result.
\<close>

definition spec_start :: "os \<Rightarrow> runnable \<Rightarrow> error + os \<times> runnable" where
  "spec_start w r = start w r None"

definition spec_wait ::
  "nat option \<Rightarrow> os \<times> runnable \<Rightarrow> (error + os \<times> runnable \<times> completed) option"
where
  "spec_wait timeout st = wait (fst st) (snd st) (Given timeout)"

definition start_then_wait ::
  "os \<Rightarrow> runnable \<Rightarrow> nat option \<Rightarrow> (error + os \<times> runnable \<times> completed) option"
where
  "start_then_wait w r timeout =
     (if isl (spec_start w r) then Some (Inl (projl (spec_start w r)))
      else spec_wait timeout (projr (spec_start w r)))"

section \<open>The exit-status check\<close>

text \<open>
  \<^verbatim>\<open>
  class CompletedProcess(subprocess.CompletedProcess):
      pass
  class CalledProcessError(subprocess.CalledProcessError):
      pass
  class CalledProcessSignal(CalledProcessError):
      pass
  \<close>
  The class body is empty, so \<^verbatim>\<open>check_returncode\<close> is the standard library's method:
  \<^verbatim>\<open>
  def check_returncode(self):
      if self.returncode:
          raise CalledProcessError(self.returncode, self.args, self.stdout, self.stderr)
  \<close>
  where \<^verbatim>\<open>CalledProcessError\<close> is \<^verbatim>\<open>subprocess.CalledProcessError\<close>. The return code of
  a child that a signal ended is the negated signal number.
\<close>

definition check_returncode :: "completed \<Rightarrow> error + unit" where
  "check_returncode self =
     (case cp_returncode self of
        None \<Rightarrow> Inr ()
      | Some rc \<Rightarrow>
          if rc \<noteq> 0
          then Inl (CalledProcess Subprocess_CalledProcessError rc
                      (cp_args self) (cp_stdout self) (cp_stderr self))
          else Inr ())"

text \<open>\<^verbatim>\<open>issubclass(c, d)\<close> on the three exception classes.\<close>

fun issubclass :: "exc_class \<Rightarrow> exc_class \<Rightarrow> bool" where
  "issubclass c Subprocess_CalledProcessError = True"
| "issubclass Subprocess_CalledProcessError d = False"
| "issubclass c Spawn_CalledProcessError = True"
| "issubclass c Spawn_CalledProcessSignal = (c = Spawn_CalledProcessSignal)"

text \<open>
  The end of \<^verbatim>\<open>Runnable.iterate\<close> (lines 59 and 60), after the output lines have been
  produced:
  \<^verbatim>\<open>
  res = self.wait()
  res.check_returncode()
  \<close>
\<close>

definition iterate_end :: "os \<Rightarrow> runnable \<Rightarrow> (error + os \<times> runnable) option" where
  "iterate_end w self =
     (case wait w self Omitted of
        None \<Rightarrow> None
      | Some (Inl e) \<Rightarrow> Some (Inl e)
      | Some (Inr (w', self', res)) \<Rightarrow>
          (case check_returncode res of
             Inl e \<Rightarrow> Some (Inl e)
           | Inr u \<Rightarrow> Some (Inr (w', self'))))"

section \<open>Vocabulary for the properties\<close>

text \<open>The segments of a template between its pipe separators, first segment first.\<close>

fun split_on :: "char \<Rightarrow> string \<Rightarrow> string list" where
  "split_on sep [] = [[]]"
| "split_on sep (c # cs) =
     (if c = sep then [] # split_on sep cs
      else (case split_on sep cs of [] \<Rightarrow> [[c]] | x # xs \<Rightarrow> (c # x) # xs))"

fun is_pipeline :: "runnable \<Rightarrow> bool" where
  "is_pipeline (Command p) = False"
| "is_pipeline (Pipeline pre t pi i ou) = True"

text \<open>The nesting of a runnable, written with parentheses around each preceding side.\<close>

fun grouping :: "runnable \<Rightarrow> string" where
  "grouping (Command p) = p_cmd p"
| "grouping (Pipeline pre t pi i ou) = ''('' @ grouping pre @ '')|'' @ p_cmd t"

text \<open>
  The stdout mode that \<^verbatim>\<open>_prepare_pipe\<close> leaves on a stage built with stdout unset,
  as a function of the stage's stderr mode.
\<close>

definition piped :: "pyval \<Rightarrow> pyval" where
  "piped stderr = (if stderr = PInt PIPE then PInt UNDEFINED else PInt PIPE)"

text \<open>
  The return code the operating system has for the child of a handle: the one the handle
  remembers, else the one the child exits with.
\<close>

definition final_status :: "os \<Rightarrow> popen \<Rightarrow> int option" where
  "final_status w h =
     (case po_returncode h of
        Some c \<Rightarrow> Some c
      | None \<Rightarrow> map_option snd (exit_at w (po_pid h)))"

text \<open>
  An operating system for the examples: every command can be executed, the first child
  exits at time 1 with return code 1, every later child at time 2 with return code 0, and
  each child writes \<open>out\<close> to its streams. \<open>demo_started\<close> is the pipeline
  \<^verbatim>\<open>Pipe('false | true')\<close> after \<^verbatim>\<open>start()\<close>.
\<close>

definition demo_os :: os where
  "demo_os = \<lparr> next_pid = 0, clock = 0, executable = (\<lambda>argv. True),
               exit_at = (\<lambda>pid. if pid = 0 then Some (1, 1) else Some (2, 0)),
               child_out = (\<lambda>pid s. ''out''), os_log = [] \<rparr>"

definition demo_started :: "os \<times> runnable" where
  "demo_started = projr (start demo_os (projr (Pipe_new ''false | true'' [] None [])) None)"

section \<open>Auxiliary facts\<close>

lemmas sentinel_defs =
  IGNORE_def CAPTURE_def INTERACT_def PIPE_def STDIN_def STDOUT_def STDERR_def UNDEFINED_def

lemma py_count_escape_le: "2 * py_count s ''%%'' \<le> py_count s ''%''"
proof (induction s rule: length_induct)
  case (1 s)
  show ?case
  proof (cases s)
    case Nil
    then show ?thesis by simp
  next
    case (Cons c cs)
    show ?thesis
    proof (cases "take 2 s = ''%%''")
      case True
      then obtain rest where s: "s = CHR ''%'' # CHR ''%'' # rest"
        by (cases s; cases "tl s") (auto simp: Cons)
      have "length rest < length s" by (simp add: s)
      with 1 have "2 * py_count rest ''%%'' \<le> py_count rest ''%''" by blast
      then show ?thesis by (simp add: s)
    next
      case False
      have "length cs < length s" by (simp add: Cons)
      with 1 have "2 * py_count cs ''%%'' \<le> py_count cs ''%''" by blast
      with False show ?thesis by (simp add: Cons)
    qed
  qed
qed

lemma spec_count_nonneg: "0 \<le> spec_count s"
  using py_count_escape_le [of s] by (simp add: spec_count_def)

lemma slice_nonneg:
  "0 \<le> n \<Longrightarrow> slice_to xs n = take (nat n) xs \<and> slice_from xs n = drop (nat n) xs"
  by (simp add: slice_to_def slice_from_def)

lemma split_on_not_Nil: "split_on sep s \<noteq> []"
  by (induction s) (auto split: list.splits)

lemma split_on_no_sep: "sep \<notin> set s \<Longrightarrow> split_on sep s = [s]"
  by (induction s) auto


lemma split_on_snoc: "sep \<notin> set b \<Longrightarrow> split_on sep (a @ sep # b) = split_on sep a @ [b]"
proof (induction a)
  case Nil
  then show ?case by (simp add: split_on_no_sep)
next
  case (Cons c a)
  then show ?case using split_on_not_Nil [of sep a]
    by (cases "split_on sep a") auto
qed

lemma rsplit1_last:
  assumes "sep \<in> set s"
  shows "\<exists>a b. rsplit1 sep s = [a, b] \<and> s = a @ sep # b \<and> sep \<notin> set b"
proof -
  let ?P = "\<lambda>c. c \<noteq> sep"
  let ?dw = "dropWhile ?P (rev s)"
  let ?tw = "takeWhile ?P (rev s)"
  from assms have ne: "?dw \<noteq> []" by simp
  then have "\<not> ?P (hd ?dw)" by (rule hd_dropWhile)
  with ne have dw: "?dw = sep # tl ?dw" by (cases ?dw) auto
  have "rev s = ?tw @ ?dw" by simp
  with dw have "rev s = ?tw @ sep # tl ?dw" by metis
  then have "rev (rev s) = rev (?tw @ sep # tl ?dw)" by (rule arg_cong)
  then have s: "s = rev (tl ?dw) @ sep # rev ?tw" by simp
  have "sep \<notin> set (rev ?tw)" using set_takeWhileD [of sep ?P "rev s"] by auto
  with s assms show ?thesis by (auto simp: rsplit1_def)
qed

lemma Process_init_fields:
  "Process_init cmd args i ou e k = Inr p \<Longrightarrow>
     p_cmd p = cmd \<and> p_args p = args \<and> p_stdin p = i \<and> p_stdout p = ou \<and> p_stderr p = e \<and>
     p_kwargs p = k \<and> p_init_pipe p = False"
  by (auto simp: Process_init_def Let_def split: sum.splits if_splits)

lemma Process_prepare_pipe_fields:
  "Process_prepare_pipe p = Inr p' \<Longrightarrow>
     p_cmd p' = p_cmd p \<and> p_args p' = p_args p \<and> p_stdin p' = p_stdin p \<and>
     p_stderr p' = p_stderr p \<and> p_kwargs p' = p_kwargs p \<and> p_init_pipe p' \<and>
     p_stdout p' = (if p_stdout p \<noteq> PInt PIPE \<and> p_stderr p \<noteq> PInt PIPE then PInt PIPE else p_stdout p)"
  by (auto simp: Process_prepare_pipe_def Let_def split: if_splits)

lemma stages_not_Nil: "stages r \<noteq> []"
  by (cases r) auto

lemma Pipe_init_cases:
  assumes "Pipe_init cmd args None i ou e k = Inr r"
  shows "\<exists>pre lst pr0 pr t.
           cmd = pre @ CHR ''|'' # lst \<and> CHR ''|'' \<notin> set lst \<and>
           (if CHR ''|'' \<in> set pre
            then Pipe_init pre (slice_to args (spec_count pre)) None i (PInt UNDEFINED) e k = Inr pr0
            else \<exists>p. Process_init pre (slice_to args (spec_count pre)) i (PInt UNDEFINED) e k = Inr p
                     \<and> pr0 = Command p) \<and>
           prepare_pipe pr0 = Inr pr \<and>
           Process_init lst (slice_from args (spec_count pre)) (PInt UNDEFINED) ou e k = Inr t \<and>
           r = Pipeline pr t None None None"
proof -
  from assms have mem: "CHR ''|'' \<in> set cmd"
    by (subst (asm) Pipe_init.simps) (simp split: if_splits)
  from rsplit1_last [OF mem] obtain pre lst where
    sp: "rsplit1 (CHR ''|'') cmd = [pre, lst]" "cmd = pre @ CHR ''|'' # lst" "CHR ''|'' \<notin> set lst"
    by blast
  from assms mem sp show ?thesis
    apply (subst (asm) Pipe_init.simps)
    apply (rule exI [of _ pre], rule exI [of _ lst])
    apply (auto simp: Let_def Pipe_finish_def split: sum.splits if_splits)
    done
qed


lemma prepare_pipe_maps:
  assumes "prepare_pipe r = Inr r'"
  shows "map p_cmd (stages r') = map p_cmd (stages r)"
    and "map p_args (stages r') = map p_args (stages r)"
    and "map p_stdin (stages r') = map p_stdin (stages r)"
    and "map p_stderr (stages r') = map p_stderr (stages r)"
    and "map p_kwargs (stages r') = map p_kwargs (stages r)"
    and "map p_stdout (stages r') =
           butlast (map p_stdout (stages r)) @
           [if last (map p_stdout (stages r)) \<noteq> PInt PIPE \<and> last (map p_stderr (stages r)) \<noteq> PInt PIPE
            then PInt PIPE else last (map p_stdout (stages r))]"
    and "is_pipeline r' = is_pipeline r"
  using assms
  by (cases r; auto split: sum.splits dest!: Process_prepare_pipe_fields simp: stages_not_Nil)+

lemma Pipe_init_stages:
  "Pipe_init cmd args None i ou e k = Inr r \<Longrightarrow>
     is_pipeline r \<and>
     map p_cmd (stages r) = split_on (CHR ''|'') cmd \<and>
     concat (map p_args (stages r)) = args \<and>
     map p_stderr (stages r) = replicate (length (stages r)) e \<and>
     map p_kwargs (stages r) = replicate (length (stages r)) k \<and>
     map p_stdin (stages r) = i # replicate (length (stages r) - 1) (PInt UNDEFINED) \<and>
     map p_stdout (stages r) = replicate (length (stages r) - 1) (piped e) @ [ou]"
proof (induction "length cmd" arbitrary: cmd args ou r rule: less_induct)
  case less
  from Pipe_init_cases [OF less.prems] obtain pre lst pr0 pr t where
    cmd: "cmd = pre @ CHR ''|'' # lst" and lst: "CHR ''|'' \<notin> set lst" and
    pr0: "if CHR ''|'' \<in> set pre
          then Pipe_init pre (slice_to args (spec_count pre)) None i (PInt UNDEFINED) e k = Inr pr0
          else \<exists>p. Process_init pre (slice_to args (spec_count pre)) i (PInt UNDEFINED) e k = Inr p
                   \<and> pr0 = Command p" and
    pr: "prepare_pipe pr0 = Inr pr" and
    t: "Process_init lst (slice_from args (spec_count pre)) (PInt UNDEFINED) ou e k = Inr t" and
    r: "r = Pipeline pr t None None None"
    by blast
  let ?n = "length (stages pr0)"
  have q0: "map p_cmd (stages pr0) = split_on (CHR ''|'') pre \<and>
     concat (map p_args (stages pr0)) = slice_to args (spec_count pre) \<and>
     map p_stderr (stages pr0) = replicate ?n e \<and>
     map p_kwargs (stages pr0) = replicate ?n k \<and>
     map p_stdin (stages pr0) = i # replicate (?n - 1) (PInt UNDEFINED) \<and>
     map p_stdout (stages pr0) = replicate (?n - 1) (piped e) @ [PInt UNDEFINED]"
  proof (cases "CHR ''|'' \<in> set pre")
    case True
    with pr0 have "Pipe_init pre (slice_to args (spec_count pre)) None i (PInt UNDEFINED) e k = Inr pr0"
      by simp
    moreover have "length pre < length cmd" using cmd by simp
    ultimately show ?thesis using less.hyps by blast
  next
    case False
    with pr0 obtain p where
      "Process_init pre (slice_to args (spec_count pre)) i (PInt UNDEFINED) e k = Inr p"
      "pr0 = Command p" by auto
    with False show ?thesis by (auto dest!: Process_init_fields simp: split_on_no_sep)
  qed
  have n: "?n \<noteq> 0" by (simp add: stages_not_Nil)
  have len: "length (stages pr) = ?n"
    using prepare_pipe_maps(1) [OF pr] by (metis length_map)
  have so: "map p_stdout (stages pr) = replicate ?n (piped e)"
  proof -
    from q0 n have "last (map p_stderr (stages pr0)) = e" by simp
    moreover from q0 have "last (map p_stdout (stages pr0)) = PInt UNDEFINED" by simp
    moreover from q0 have "butlast (map p_stdout (stages pr0)) = replicate (?n - 1) (piped e)" by simp
    ultimately have "map p_stdout (stages pr) = replicate (?n - 1) (piped e) @ [piped e]"
      using prepare_pipe_maps(6) [OF pr] by (simp add: piped_def sentinel_defs)
    also have "\<dots> = replicate ?n (piped e)"
      using n by (cases ?n) (simp_all add: replicate_append_same)
    finally show ?thesis .
  qed
  from t have tf: "p_cmd t = lst" "p_args t = slice_from args (spec_count pre)"
    "p_stdin t = PInt UNDEFINED" "p_stdout t = ou" "p_stderr t = e" "p_kwargs t = k"
    by (auto dest!: Process_init_fields)
  have "slice_to args (spec_count pre) @ slice_from args (spec_count pre) = args"
    by (simp add: slice_to_def slice_from_def)
  then have c3: "concat (map p_args (stages r)) = args"
    using q0 tf by (simp add: r prepare_pipe_maps(2) [OF pr])
  have rp: "x # replicate (?n - 1) x = replicate ?n x" for x :: pyval
    using n by (cases ?n) simp_all
  have c1: "is_pipeline r" by (simp add: r)
  have c2: "map p_cmd (stages r) = split_on (CHR ''|'') cmd"
    using q0 tf by (simp add: r cmd prepare_pipe_maps(1) [OF pr] split_on_snoc [OF lst])
  have c4: "map p_stderr (stages r) = replicate (length (stages r)) e"
    using q0 tf len by (simp add: r prepare_pipe_maps(4) [OF pr] replicate_append_same)
  have c5: "map p_kwargs (stages r) = replicate (length (stages r)) k"
    using q0 tf len by (simp add: r prepare_pipe_maps(5) [OF pr] replicate_append_same)
  have c6: "map p_stdin (stages r) = i # replicate (length (stages r) - 1) (PInt UNDEFINED)"
    using q0 tf len rp [of "PInt UNDEFINED"]
    by (simp add: r prepare_pipe_maps(3) [OF pr] replicate_append_same)
  have c7: "map p_stdout (stages r) = replicate (length (stages r) - 1) (piped e) @ [ou]"
    using so tf len by (simp add: r)
  from c1 c2 c3 c4 c5 c6 c7 show ?case by blast
qed


lemma is_pipeline_length: "is_pipeline r \<Longrightarrow> 2 \<le> length (stages r)"
  using stages_not_Nil by (cases r) (auto simp: Suc_le_eq)





lemma join_fields:
  "p_cmdline (join w h self th) = p_cmdline self \<and> p_popen (join w h self th) = p_popen self"
  by (cases th) (auto split: option.splits)

lemma foldl_join_fields:
  "p_cmdline (foldl (join w h) self ths) = p_cmdline self \<and>
   p_popen (foldl (join w h) self ths) = p_popen self"
  by (induction ths arbitrary: self) (simp_all add: join_fields)

lemma Popen_wait_returncode:
  "Popen_wait w h timeout = Some (Inr (w', h', rc)) \<Longrightarrow>
     po_returncode h' = Some rc \<and> po_pid h' = po_pid h \<and>
     final_status w h = Some rc"
  by (auto simp: Popen_wait_def final_status_def split: option.splits if_splits prod.splits)

lemma Process_wait_result:
  assumes "Process_wait w t (Given timeout) = Some (Inr (w', t', res))"
  shows "\<exists>h rc. p_popen t = Some h \<and> cp_args res = p_cmdline t \<and> cp_returncode res = Some rc \<and>
           final_status w h = Some rc"
proof -
  from assms obtain h h' rc where
    h: "p_popen t = Some h" and pw: "Popen_wait w h timeout = Some (Inr (w', h', rc))" and
    res: "cp_args res = p_cmdline (foldl (join w' h') (t\<lparr>p_popen := Some h'\<rparr>) (p_threads t))"
         "cp_returncode res = po_returncode h'"
    by (auto simp: Process_wait_def Let_def split: option.splits sum.splits prod.splits)
  from res have "cp_args res = p_cmdline t" by (simp add: foldl_join_fields)
  moreover from res Popen_wait_returncode [OF pw] have "cp_returncode res = Some rc" by simp
  moreover from Popen_wait_returncode [OF pw] have "final_status w h = Some rc" by simp
  ultimately show ?thesis using h by blast
qed

lemma kw_rest_no_stream:
  "k \<in> {''stdin'', ''stdout'', ''stderr''} \<Longrightarrow> map_of (kw_rest kws) k = None"
  by (induction kws) (auto simp: kw_rest_def)

section \<open>The claims\<close>

subsection \<open>C1: the argv resolver\<close>

text \<open>
  Claim C1: for a template and as many arguments as it has placeholders, \<^verbatim>\<open>cmdline\<close>
  succeeds and returns the argument vector, one element for each token, with the
  placeholders substituted. The code does not: whenever at least one argument is given,
  \<^verbatim>\<open>cmdline\<close> never returns an argument vector, whatever the template; it raises or
  returns \<^verbatim>\<open>None\<close>, because the function ends after the loop without returning
  \<^verbatim>\<open>parts\<close>. For \<^verbatim>\<open>cmdline('echo %s', 'hi')\<close> the loop computes
  \<^verbatim>\<open>['echo', 'hi']\<close> and the call returns \<^verbatim>\<open>None\<close>.
\<close>

theorem cmdline_with_args_returns_no_argv:
  "cmdline template (a # args) \<noteq> Inr (Some argv) \<and>
   cmdline_loop (py_split ''echo %s'') [PStr ''hi''] = Inr [''echo'', ''hi''] \<and>
   cmdline ''echo %s'' [PStr ''hi''] = Inr None"
proof -
  have g: "cmdline template (a # args) \<noteq> Inr (Some argv)"
    by (simp add: cmdline_def Let_def split: sum.splits)
  have l: "cmdline_loop (py_split ''echo %s'') [PStr ''hi''] = Inr [''echo'', ''hi'']"
    by code_simp
  have c: "cmdline ''echo %s'' [PStr ''hi''] = Inr None"
    by code_simp
  from g l c show ?thesis by blast
qed

subsection \<open>C2: interactive streams\<close>

text \<open>
  Claim C2: construction of a command or pipeline fails when two or more of its streams
  are requested in Interact mode. The code does not fail: \<^verbatim>\<open>_interactive_count\<close> looks
  the three stream names up in \<^verbatim>\<open>_kwargs\<close>, where keyword binding never puts them, so
  the count is 0 for every process and the assertion of \<^verbatim>\<open>Runnable.__init__\<close> always
  holds. \<^verbatim>\<open>Process('cat', stdin=INTERACT, stdout=INTERACT, stderr=INTERACT)\<close> is
  constructed with all three streams interactive, and so is
  \<^verbatim>\<open>Process('a', stdin=INTERACT).pipe('b', stdout=INTERACT)\<close>.
\<close>

theorem interactive_streams_not_rejected:
  "Process_interactive_count (p\<lparr>p_kwargs := kw_rest kws\<rparr>) = 0 \<and>
   map_sum id (\<lambda>p. [p_stdin p, p_stdout p, p_stderr p])
     (Process_new ''cat'' []
        [(''stdin'', PInt INTERACT), (''stdout'', PInt INTERACT), (''stderr'', PInt INTERACT)])
     = Inr [PInt INTERACT, PInt INTERACT, PInt INTERACT] \<and>
   map_sum id (\<lambda>r. map (\<lambda>p. [p_stdin p, p_stdout p]) (stages r))
     (pipe (Command (projr (Process_new ''a'' [] [(''stdin'', PInt INTERACT)])))
        ''b'' [] [(''stdout'', PInt INTERACT)])
     = Inr [[PInt INTERACT, PInt PIPE], [PInt UNDEFINED, PInt INTERACT]]"
proof -
  have g: "Process_interactive_count (p\<lparr>p_kwargs := kw_rest kws\<rparr>) = 0"
    by (simp add: Process_interactive_count_def kw_rest_no_stream)
  have c: "map_sum id (\<lambda>p. [p_stdin p, p_stdout p, p_stderr p])
     (Process_new ''cat'' []
        [(''stdin'', PInt INTERACT), (''stdout'', PInt INTERACT), (''stderr'', PInt INTERACT)])
     = Inr [PInt INTERACT, PInt INTERACT, PInt INTERACT]"
    by code_simp
  have d: "map_sum id (\<lambda>r. map (\<lambda>p. [p_stdin p, p_stdout p]) (stages r))
     (pipe (Command (projr (Process_new ''a'' [] [(''stdin'', PInt INTERACT)])))
        ''b'' [] [(''stdout'', PInt INTERACT)])
     = Inr [[PInt INTERACT, PInt PIPE], [PInt UNDEFINED, PInt INTERACT]]"
    by code_simp
  from g c d show ?thesis by blast
qed

subsection \<open>C3: the error for a signal\<close>

text \<open>
  Claim C3: the exit-status check on the completion record of a process that a signal
  ended raises the signal variant of the error. The code raises the standard library's
  \<^verbatim>\<open>CalledProcessError\<close> for every non-zero return code: \<^verbatim>\<open>CalledProcessSignal\<close> is
  declared and never raised. For return code -9 the class raised is the one raised for
  return code 2, and it is not a subclass of \<^verbatim>\<open>CalledProcessSignal\<close>; no completion
  record makes the check raise \<^verbatim>\<open>CalledProcessSignal\<close>.
\<close>

theorem check_returncode_never_signal_variant:
  "check_returncode self \<noteq> Inl (CalledProcess Spawn_CalledProcessSignal rc c so se) \<and>
   check_returncode \<lparr> cp_args = Some [''sleep'', ''60''], cp_returncode = Some (- 9),
                      cp_stdout = None, cp_stderr = None \<rparr>
     = Inl (CalledProcess Subprocess_CalledProcessError (- 9) (Some [''sleep'', ''60'']) None None) \<and>
   check_returncode \<lparr> cp_args = Some [''sh'', ''-c'', ''exit 2''], cp_returncode = Some 2,
                      cp_stdout = None, cp_stderr = None \<rparr>
     = Inl (CalledProcess Subprocess_CalledProcessError 2 (Some [''sh'', ''-c'', ''exit 2'']) None None) \<and>
   \<not> issubclass Subprocess_CalledProcessError Spawn_CalledProcessSignal"
  by (simp add: check_returncode_def split: option.splits)

subsection \<open>C4: the thread for eager input\<close>




subsection \<open>C5: signals\<close>

text \<open>
  Claim C5: \<^verbatim>\<open>send_signal(signal)\<close>, \<^verbatim>\<open>terminate()\<close> and \<^verbatim>\<open>kill()\<close> of a started
  command forward to the operation of the process handle, the signal being the only
  argument. \<^verbatim>\<open>terminate\<close> and \<^verbatim>\<open>kill\<close> do. \<^verbatim>\<open>send_signal\<close> passes the command
  itself as a further argument, so for every started command and every signal the call
  raises a TypeError and nothing reaches the operating system.
\<close>

theorem send_signal_raises_TypeError:
  "Process_send_signal w (p\<lparr>p_popen := Some h\<rparr>) signal = Inl TypeError \<and>
   Process_terminate w (p\<lparr>p_popen := Some h\<rparr>) = Inr (w\<lparr>os_log := os_log w @ [Terminate (po_pid h)]\<rparr>) \<and>
   Process_kill w (p\<lparr>p_popen := Some h\<rparr>) = Inr (w\<lparr>os_log := os_log w @ [Kill (po_pid h)]\<rparr>)"
  by (simp add: Process_send_signal_def Popen_send_signal_def Process_terminate_def
        Popen_terminate_def Process_kill_def Popen_kill_def)

subsection \<open>C6: construction from a template\<close>

text \<open>
  Claim C6: a pipeline constructed from a template is split at the last separator: the
  text after it is the template of the terminal command, the text before it the template
  of the preceding side, which is a pipeline exactly when it still holds a separator and
  whose stages are the segments of that text in order; the preceding side receives the
  first arguments, as many as its placeholder count \<open>n\<close> (all of them when there are
  fewer than \<open>n\<close>), and the terminal command the remaining ones.
\<close>

theorem pipe_splits_at_last_separator:
  assumes "Pipe_init cmd args None stdin stdout stderr kwargs = Inr r"
  shows "\<exists>pre lst pr t.
           cmd = pre @ CHR ''|'' # lst \<and> CHR ''|'' \<notin> set lst \<and>
           r = Pipeline pr t None None None \<and>
           is_pipeline pr = (CHR ''|'' \<in> set pre) \<and>
           map p_cmd (stages pr) = split_on (CHR ''|'') pre \<and>
           0 \<le> spec_count pre \<and>
           concat (map p_args (stages pr)) = take (nat (spec_count pre)) args \<and>
           p_cmd t = lst \<and> p_args t = drop (nat (spec_count pre)) args"
proof -
  from Pipe_init_cases [OF assms] obtain pre lst pr0 pr t where
    cmd: "cmd = pre @ CHR ''|'' # lst" and lst: "CHR ''|'' \<notin> set lst" and
    pr0: "if CHR ''|'' \<in> set pre
          then Pipe_init pre (slice_to args (spec_count pre)) None stdin (PInt UNDEFINED) stderr kwargs = Inr pr0
          else \<exists>p. Process_init pre (slice_to args (spec_count pre)) stdin (PInt UNDEFINED) stderr kwargs = Inr p
                   \<and> pr0 = Command p" and
    pr: "prepare_pipe pr0 = Inr pr" and
    t: "Process_init lst (slice_from args (spec_count pre)) (PInt UNDEFINED) stdout stderr kwargs = Inr t" and
    r: "r = Pipeline pr t None None None"
    by blast
  have q0: "is_pipeline pr0 = (CHR ''|'' \<in> set pre) \<and>
            map p_cmd (stages pr0) = split_on (CHR ''|'') pre \<and>
            concat (map p_args (stages pr0)) = slice_to args (spec_count pre)"
  proof (cases "CHR ''|'' \<in> set pre")
    case True
    with pr0 show ?thesis using Pipe_init_stages [of pre _ stdin "PInt UNDEFINED" stderr kwargs pr0]
      by simp
  next
    case False
    with pr0 show ?thesis by (auto dest!: Process_init_fields simp: split_on_no_sep)
  qed
  from t have "p_cmd t = lst" "p_args t = slice_from args (spec_count pre)"
    by (auto dest!: Process_init_fields)
  with q0 cmd lst r spec_count_nonneg [of pre] show ?thesis
    by (simp add: prepare_pipe_maps [OF pr] slice_nonneg)
qed

theorem pipe_splits_at_last_separator_witness:
  "map_sum id grouping (Pipe_init ''a %s | b | c %s'' [PStr ''x'', PStr ''y''] None
       (PInt UNDEFINED) (PInt UNDEFINED) (PInt UNDEFINED) []) = Inr ''((a %s )| b )| c %s'' \<and>
   (\<exists>pre lst pr t.
      ''a %s | b | c %s'' = pre @ CHR ''|'' # lst \<and> CHR ''|'' \<notin> set lst \<and>
      projr (Pipe_init ''a %s | b | c %s'' [PStr ''x'', PStr ''y''] None
       (PInt UNDEFINED) (PInt UNDEFINED) (PInt UNDEFINED) []) = Pipeline pr t None None None \<and>
      is_pipeline pr = (CHR ''|'' \<in> set pre) \<and>
      map p_cmd (stages pr) = split_on (CHR ''|'') pre \<and>
      0 \<le> spec_count pre \<and>
      concat (map p_args (stages pr)) = take (nat (spec_count pre)) [PStr ''x'', PStr ''y''] \<and>
      p_cmd t = lst \<and> p_args t = drop (nat (spec_count pre)) [PStr ''x'', PStr ''y''])"
proof -
  let ?c = "Pipe_init ''a %s | b | c %s'' [PStr ''x'', PStr ''y''] None
       (PInt UNDEFINED) (PInt UNDEFINED) (PInt UNDEFINED) []"
  have ok: "\<not> isl ?c" by code_simp
  then have h: "?c = Inr (projr ?c)" by (cases ?c) auto
  have g: "map_sum id grouping ?c = Inr ''((a %s )| b )| c %s''" by code_simp
  from g pipe_splits_at_last_separator [OF h] show ?thesis by blast
qed

subsection \<open>C7: the status of a pipeline\<close>

text \<open>
  Claim C7: \<^verbatim>\<open>poll()\<close> and \<^verbatim>\<open>wait()\<close> of a pipeline delegate to the terminal stage
  only. The status or error of \<^verbatim>\<open>poll\<close> is that of the terminal command's \<^verbatim>\<open>poll\<close>;
  a \<^verbatim>\<open>wait\<close> that returns is the terminal command's \<^verbatim>\<open>wait\<close>, it leaves the
  preceding side as it was, and its completion record holds the terminal command's argv
  and the return code the operating system has for the terminal command's child,
  whatever the preceding stages do.
\<close>

theorem pipeline_status_is_terminal:
  "map_sum id snd (poll w (Pipeline pre t pi i ou)) = map_sum id snd (Process_poll w t) \<and>
   (wait w (Pipeline pre t pi i ou) a = Some (Inr (w', r', res)) \<longrightarrow>
      (\<exists>h rc t'. r' = Pipeline pre t' pi i ou \<and>
         Process_wait w t (Given (case a of Omitted \<Rightarrow> None | Given x \<Rightarrow> x)) = Some (Inr (w', t', res)) \<and>
         p_popen t = Some h \<and> cp_args res = p_cmdline t \<and> cp_returncode res = Some rc \<and>
         final_status w h = Some rc))"
proof (intro conjI impI)
  show "map_sum id snd (poll w (Pipeline pre t pi i ou)) = map_sum id snd (Process_poll w t)"
    by (auto split: sum.splits)
next
  assume a: "wait w (Pipeline pre t pi i ou) a = Some (Inr (w', r', res))"
  let ?to = "case a of Omitted \<Rightarrow> None | Given x \<Rightarrow> x"
  from a obtain t' where
    pw: "Process_wait w t (Given ?to) = Some (Inr (w', t', res))" and r': "r' = Pipeline pre t' pi i ou"
    by (auto simp: Let_def split: option.splits sum.splits)
  from Process_wait_result [OF pw] pw r'
  show "\<exists>h rc t'. r' = Pipeline pre t' pi i ou \<and>
         Process_wait w t (Given ?to) = Some (Inr (w', t', res)) \<and>
         p_popen t = Some h \<and> cp_args res = p_cmdline t \<and> cp_returncode res = Some rc \<and>
         final_status w h = Some rc"
    by blast
qed

text \<open>
  In the started pipeline \<^verbatim>\<open>false | true\<close> the first child exits with 1 and the second
  with 0; the pipeline reports 0.
\<close>

theorem pipeline_status_is_terminal_witness:
  "map (\<lambda>p. final_status (fst demo_started) (the (p_popen p))) (stages (snd demo_started))
     = [Some 1, Some 0] \<and>
   (\<exists>pre t pi i ou w' r' res h.
      snd demo_started = Pipeline pre t pi i ou \<and>
      wait (fst demo_started) (Pipeline pre t pi i ou) Omitted = Some (Inr (w', r', res)) \<and>
      (\<exists>t'. r' = Pipeline pre t' pi i ou) \<and>
      p_popen t = Some h \<and> cp_args res = Some [''true''] \<and> cp_returncode res = Some 0 \<and>
      final_status (fst demo_started) h = Some 0)"
proof -
  let ?w = "fst demo_started" and ?r = "snd demo_started"
  have st: "map (\<lambda>p. final_status ?w (the (p_popen p))) (stages ?r) = [Some 1, Some 0]"
    by code_simp
  have "is_pipeline ?r" by code_simp
  then obtain pre t pi i ou where r: "?r = Pipeline pre t pi i ou"
    by (cases ?r) auto
  have "case wait ?w ?r Omitted of Some (Inr x) \<Rightarrow> True | _ \<Rightarrow> False" by code_simp
  then obtain w' r' res where wt: "wait ?w ?r Omitted = Some (Inr (w', r', res))"
    by (auto split: option.splits sum.splits)
  have "map_option (map_sum id (\<lambda>x. (cp_args (snd (snd x)), cp_returncode (snd (snd x)))))
          (wait ?w ?r Omitted) = Some (Inr (Some [''true''], Some 0))"
    by code_simp
  with wt have res: "cp_args res = Some [''true'']" "cp_returncode res = Some 0" by simp_all
  from pipeline_status_is_terminal [of ?w pre t pi i ou Omitted w' r' res] wt r
  obtain h rc t' where
    "r' = Pipeline pre t' pi i ou" "p_popen t = Some h" "cp_returncode res = Some rc"
    "final_status ?w h = Some rc"
    by auto
  with res r wt st show ?thesis by auto
qed

subsection \<open>C8: run\<close>

text \<open>
  Claim C8: for every runnable, input and timeout, \<^verbatim>\<open>run(input, timeout)\<close> is
  \<^verbatim>\<open>start()\<close> followed by \<^verbatim>\<open>wait(timeout)\<close> and returns what \<^verbatim>\<open>wait\<close> returns. The
  input takes no part in it.
\<close>

theorem run_is_start_then_wait:
  "run w r input timeout = start_then_wait w r timeout \<and>
   run w r input timeout = run w r None timeout"
  by (cases "start w r None")
     (auto simp: run_def start_then_wait_def spec_start_def spec_wait_def)

subsection \<open>C9: wait without a timeout\<close>

text \<open>
  Claim C9: \<^verbatim>\<open>wait\<close> may be called without a timeout on every started runnable,
  command or pipeline, and then blocks until exit, joins the threads and returns the
  completion record. On a command the call raises a TypeError, because
  \<^verbatim>\<open>Process.wait(self, timeout)\<close> declares no default, unlike \<^verbatim>\<open>Runnable.wait\<close> and
  \<^verbatim>\<open>Pipe.wait\<close>; the end of \<^verbatim>\<open>iterate\<close>, which calls \<^verbatim>\<open>self.wait()\<close>, raises it too.
\<close>

theorem wait_without_timeout_raises_on_command:
  "Process_wait w p Omitted = Some (Inl TypeError) \<and>
   wait w (Command p) Omitted = Some (Inl TypeError) \<and>
   iterate_end w (Command p) = Some (Inl TypeError)"
  by (simp add: Process_wait_def iterate_end_def)

subsection \<open>C10: stream modes of the stages\<close>

text \<open>
  Claim C10, as amended: in a pipeline constructed from a template there are at least
  two stages; every stage has the stderr mode and the extra options given to the
  constructor; the first stage has the stdin mode given and every later stage is
  constructed with stdin unset; the terminal stage has the stdout mode given; and the
  stdout of each preceding stage is Pipe, unless the stderr mode given is Pipe, in which
  case it stays unset.
\<close>

theorem pipe_stream_modes:
  assumes "Pipe_init cmd args None stdin stdout stderr kwargs = Inr r"
  shows "2 \<le> length (stages r) \<and>
         map p_stderr (stages r) = replicate (length (stages r)) stderr \<and>
         map p_kwargs (stages r) = replicate (length (stages r)) kwargs \<and>
         map p_stdin (stages r) = stdin # replicate (length (stages r) - 1) (PInt UNDEFINED) \<and>
         map p_stdout (stages r) = replicate (length (stages r) - 1) (piped stderr) @ [stdout]"
  using Pipe_init_stages [OF assms] is_pipeline_length [of r] by blast

theorem pipe_stream_modes_witness:
  "map p_stdout (stages (projr (Pipe_init ''a | b | c'' [] None
       (PInt INTERACT) (PInt CAPTURE) (PInt IGNORE) [(''cwd'', PStr ''/tmp'')])))
     = [PInt PIPE, PInt PIPE, PInt CAPTURE] \<and>
   map p_stdin (stages (projr (Pipe_init ''a | b | c'' [] None
       (PInt INTERACT) (PInt CAPTURE) (PInt IGNORE) [(''cwd'', PStr ''/tmp'')])))
     = [PInt INTERACT, PInt UNDEFINED, PInt UNDEFINED] \<and>
   map p_stderr (stages (projr (Pipe_init ''a | b | c'' [] None
       (PInt INTERACT) (PInt CAPTURE) (PInt IGNORE) [(''cwd'', PStr ''/tmp'')])))
     = [PInt IGNORE, PInt IGNORE, PInt IGNORE]"
proof -
  let ?c = "Pipe_init ''a | b | c'' [] None
       (PInt INTERACT) (PInt CAPTURE) (PInt IGNORE) [(''cwd'', PStr ''/tmp'')]"
  have ok: "\<not> isl ?c" by code_simp
  then have h: "?c = Inr (projr ?c)" by (cases ?c) auto
  have n: "length (stages (projr ?c)) = 3" by code_simp
  from pipe_stream_modes [OF h] n show ?thesis
    by (simp add: piped_def sentinel_defs numeral_3_eq_3)
qed

text \<open>
  The claim as stated forces the stdout of each preceding stage into Pipe mode. In
  \<^verbatim>\<open>Pipe('a | b', stderr=PIPE)\<close> the stdout of the first stage is unset.
\<close>

theorem pipe_stdout_unset_counterexample:
  "\<not> isl (Pipe_new ''a | b'' [] None [(''stderr'', PInt PIPE)]) \<and>
   map p_stdout (stages (projr (Pipe_new ''a | b'' [] None [(''stderr'', PInt PIPE)])))
     = [PInt UNDEFINED, PInt UNDEFINED] \<and>
   PInt UNDEFINED \<noteq> PInt PIPE"
  by code_simp

end
